theory Spec2Isabelle
  imports Complex_Main "HOL-Library.Sublist" "HOL-Library.Multiset"
begin

section \<open>Strings and numbers of the source language\<close>

text \<open>
  A JavaScript string is modelled as a \<open>string\<close> whose characters are code units below
  256, a \<open>Buffer\<close> as a list of bytes, and a JavaScript number as a \<open>real\<close>: the
  arithmetic of the source is read exactly, without the rounding of IEEE doubles.
\<close>

type_synonym Buffer = string

definition isUpper :: "char \<Rightarrow> bool" where
  "isUpper c = (65 \<le> (of_char c :: nat) \<and> (of_char c :: nat) \<le> 90)"

definition isLower :: "char \<Rightarrow> bool" where
  "isLower c = (97 \<le> (of_char c :: nat) \<and> (of_char c :: nat) \<le> 122)"

definition isDigit :: "char \<Rightarrow> bool" where
  "isDigit c = (48 \<le> (of_char c :: nat) \<and> (of_char c :: nat) \<le> 57)"

text \<open>The class \<open>\w\<close> of a regular expression without the unicode flag.\<close>

definition isWordChar :: "char \<Rightarrow> bool" where
  "isWordChar c = (isUpper c \<or> isLower c \<or> isDigit c \<or> c = CHR ''_'')"

text \<open>\<open>String.prototype.includes\<close>: the argument occurs as a contiguous substring.\<close>

fun str_includes :: "string \<Rightarrow> string \<Rightarrow> bool" where
  "str_includes [] sub = (sub = [])"
| "str_includes (c # cs) sub = (prefix sub (c # cs) \<or> str_includes cs sub)"


text \<open>
  \<open>String.prototype.split\<close> with a one-character separator: the segments between the
  occurrences of the separator, so one segment more than there are separators.
\<close>

fun str_split :: "char \<Rightarrow> string \<Rightarrow> string list" where
  "str_split sep [] = [[]]"
| "str_split sep (c # cs) =
     (if c = sep then [] # str_split sep cs
      else (case str_split sep cs of [] \<Rightarrow> [[c]] | seg # segs \<Rightarrow> (c # seg) # segs))"

text \<open>
  \<open>String.prototype.match\<close> with a global regular expression returns \<open>null\<close> when
  nothing matches and the array of all matches otherwise.
\<close>

definition matchResult :: "string list \<Rightarrow> string list option" where
  "matchResult ms = (if ms = [] then None else Some ms)"

text \<open>The matches of \<open>/[.!?]/g\<close>.\<close>

definition punctuationMatches :: "string \<Rightarrow> string list" where
  "punctuationMatches text = map (\<lambda>c. [c]) (filter (\<lambda>c. c \<in> set ''.!?'') text)"

text \<open>
  The matches of \<open>/\b[A-Z][a-z]+\b/g\<close>, scanning from the left; the flag says whether
  the character before the current position is a word character. A match starts at a
  word boundary with one upper-case letter, takes the whole run of lower-case letters that
  follows (a shorter run never ends at a word boundary), needs that run to be non-empty
  and to end at a word boundary, and the scan continues behind the match.
\<close>

function capitalizedMatches :: "bool \<Rightarrow> string \<Rightarrow> string list" where
  "capitalizedMatches prevWord [] = []"
| "capitalizedMatches prevWord (c # cs) =
     (if \<not> prevWord \<and> isUpper c \<and> takeWhile isLower cs \<noteq> []
         \<and> (case dropWhile isLower cs of [] \<Rightarrow> True | d # _ \<Rightarrow> \<not> isWordChar d)
      then (c # takeWhile isLower cs) # capitalizedMatches True (dropWhile isLower cs)
      else capitalizedMatches (isWordChar c) cs)"
  by pat_completeness auto
termination
  by (relation "measure (\<lambda>(p, s). length s)") (auto simp: length_dropWhile_le less_Suc_eq_le)

section \<open>The confidence heuristic\<close>

text \<open>
  \<open>OCRService.calculateConfidence\<close>. In the source the two regular-expression tests are
  written \<open>text.match(re)?.length || 0 > 0\<close> and \<open>text.match(re)?.length || 0 > 3\<close>.
  The comparison binds tighter than \<open>||\<close>, so each condition is the number of matches
  when there is a match and it is not zero, and the constant comparison otherwise.
\<close>

definition calculateConfidence :: "string \<Rightarrow> real" where
  "calculateConfidence text =
     (let confidence = 0.7;
          confidence = (if length text > 50 then confidence + 0.1 else confidence);
          confidence =
            (if (case matchResult (punctuationMatches text) of
                   None \<Rightarrow> (0::nat) > 0
                 | Some ms \<Rightarrow> length ms \<noteq> 0 \<or> (0::nat) > 0)
             then confidence + 0.05 else confidence);
          confidence =
            (if (case matchResult (capitalizedMatches False text) of
                   None \<Rightarrow> (0::nat) > 3
                 | Some ms \<Rightarrow> length ms \<noteq> 0 \<or> (0::nat) > 3)
             then confidence + 0.05 else confidence);
          confidence = (if length (str_split (CHR 0x0A) text) > 2 then confidence + 0.05 else confidence);
          confidence = (if str_includes text ''[Error'' then 0 else confidence);
          confidence =
            (if str_includes text ''[unclear]'' \<or> str_includes text ''[?]''
             then confidence - 0.2 else confidence);
          confidence = (if length text < 20 then confidence - 0.2 else confidence);
          confidence =
            (if str_includes text ''***'' \<or> str_includes text ''???''
             then confidence - 0.1 else confidence)
      in max 0 (min 1 confidence))"

text \<open>
  The reference heuristic, following the words of the specification: the bonus for
  capitalized words needs more than three of them.
\<close>

definition referenceConfidence :: "string \<Rightarrow> real" where
  "referenceConfidence text =
     (let score = 0.7;
          score = (if length text > 50 then score + 0.1 else score);
          score = (if list_ex (\<lambda>c. c \<in> set ''.!?'') text then score + 0.05 else score);
          score = (if length (capitalizedMatches False text) > 3 then score + 0.05 else score);
          score = (if length (str_split (CHR 0x0A) text) > 2 then score + 0.05 else score);
          score = (if str_includes text ''[Error'' then 0 else score);
          score =
            (if str_includes text ''[unclear]'' \<or> str_includes text ''[?]''
             then score - 0.2 else score);
          score = (if length text < 20 then score - 0.2 else score);
          score =
            (if str_includes text ''***'' \<or> str_includes text ''???''
             then score - 0.1 else score)
      in max 0 (min 1 score))"

section \<open>Values of the environment\<close>

text \<open>The decimal rendering of a non-negative integer, as a template literal prints it.\<close>

definition digitChar :: "nat \<Rightarrow> char" where
  "digitChar d = ''0123456789'' ! d"

function show_nat :: "nat \<Rightarrow> string" where
  "show_nat n =
     (if n < 10 then [digitChar n]
      else show_nat (n div 10) @ [digitChar (n mod 10)])"
  by pat_completeness auto
termination
  by (relation "measure (\<lambda>n. n)") auto

declare show_nat.simps [simp del]

text \<open>
  A thrown value is an instance of \<open>Error\<close> with its message, or any other value.
  The handlers of the source read it with
  \<open>error instanceof Error ? error.message : 'Unknown error'\<close>.
\<close>

datatype thrown = Error string | NonError

fun errorMessage :: "thrown \<Rightarrow> string" where
  "errorMessage (Error message) = message"
| "errorMessage NonError = ''Unknown error''"

text \<open>
  A parsed JSON document. Reading a property gives a JSON value or \<open>undefined\<close>
  (\<open>None\<close>).
\<close>

datatype json =
    JNull
  | JBool bool
  | JNumber real
  | JString string
  | JArray "json list"
  | JObject "(string \<times> json) list"

text \<open>
  Property access \<open>v[k]\<close> on a value that is neither \<open>null\<close> nor \<open>undefined\<close>,
  for the keys the source reads (\<open>choices\<close>, \<open>0\<close>, \<open>message\<close>,
  \<open>content\<close> in the recognition client; \<open>type\<close>, \<open>progress\<close>, \<open>step\<close>,
  \<open>result\<close>, \<open>message\<close> in the reader of the stream): an object gives the member of
  that name, the last one when the name is repeated; an array and a string have an element
  \<open>0\<close> when they are not empty; numbers and booleans have none of these properties.
\<close>

fun getProp :: "json \<Rightarrow> string \<Rightarrow> json option" where
  "getProp (JObject members) k = map_of (rev members) k"
| "getProp (JArray xs) k =
     (if k = ''0'' then (case xs of [] \<Rightarrow> None | x # _ \<Rightarrow> Some x) else None)"
| "getProp (JString s) k =
     (if k = ''0'' then (case s of [] \<Rightarrow> None | c # _ \<Rightarrow> Some (JString [c])) else None)"
| "getProp v k = None"

text \<open>Optional chaining \<open>v?.[k]\<close>: \<open>undefined\<close> when \<open>v\<close> is \<open>null\<close> or \<open>undefined\<close>.\<close>

fun optionalChain :: "json option \<Rightarrow> string \<Rightarrow> json option" where
  "optionalChain None k = None"
| "optionalChain (Some JNull) k = None"
| "optionalChain (Some v) k = getProp v k"

text \<open>The values that \<open>||\<close> treats as false.\<close>

fun falsy :: "json option \<Rightarrow> bool" where
  "falsy None = True"
| "falsy (Some JNull) = True"
| "falsy (Some (JBool b)) = (\<not> b)"
| "falsy (Some (JNumber x)) = (x = 0)"
| "falsy (Some (JString s)) = (s = [])"
| "falsy (Some v) = False"

text \<open>
  \<open>data.choices?.[0]?.message?.content || ''\<close>. The first access is not optional:
  it throws a \<open>TypeError\<close> when the document is \<open>null\<close>.
\<close>

definition extractContent :: "json \<Rightarrow> thrown + json" where
  "extractContent data =
     (case data of
        JNull \<Rightarrow> Inl (Error ''Cannot read properties of null (reading 'choices')'')
      | _ \<Rightarrow>
          (let content =
                 optionalChain (optionalChain (optionalChain (getProp data ''choices'') ''0'')
                   ''message'') ''content''
           in if falsy content then Inr (JString [])
              else (case content of None \<Rightarrow> Inr (JString []) | Some v \<Rightarrow> Inr v)))"

text \<open>
  The outcome of the call to the recognition API: \<open>fetch\<close> rejects, or resolves to a
  response with a status, a status text and a body whose parsing by \<open>response.json()\<close>
  rejects or resolves to a document. \<open>response.ok\<close> is true for a status from 200 to
  299.
\<close>

datatype bodyOutcome = JsonRejects thrown | JsonResolves json

record HttpResponse =
  status :: nat
  statusText :: string
  body :: bodyOutcome

definition response_ok :: "HttpResponse \<Rightarrow> bool" where
  "response_ok response = (200 \<le> status response \<and> status response \<le> 299)"

datatype fetchOutcome = FetchRejects thrown | FetchResolves HttpResponse

text \<open>\<open>String.prototype.trim\<close> on the white space below code unit 256.\<close>

definition isWhiteSpace :: "char \<Rightarrow> bool" where
  "isWhiteSpace c = ((of_char c :: nat) \<in> {9, 10, 11, 12, 13, 32, 160})"

definition trim :: "string \<Rightarrow> string" where
  "trim s = rev (dropWhile isWhiteSpace (rev (dropWhile isWhiteSpace s)))"

section \<open>Reading JSON\<close>

text \<open>
  \<open>JSON.parse\<close>, for the lines the client reads from the stream. The parser follows
  the JSON grammar: objects, arrays, strings with their escapes, numbers and the three
  literals, with white space between the tokens. Its first argument bounds the depth of
  the recursion, one step for each character of the text, and a result is either a syntax
  error or a value; running out of steps is kept apart from a syntax error.
\<close>

datatype parseError = SyntaxError | OutOfFuel

text \<open>The white space of JSON.\<close>

definition isJsonSpace :: "char \<Rightarrow> bool" where
  "isJsonSpace c = ((of_char c :: nat) \<in> {9, 10, 13, 32})"

text \<open>
  The escapes of a JSON string. A code unit of 256 or more written as \<open>\uXXXX\<close> is
  outside the strings of this model and is cut to its low byte.
\<close>

definition hexValue :: "char \<Rightarrow> nat option" where
  "hexValue c =
     (let k = (of_char c :: nat)
      in if 48 \<le> k \<and> k \<le> 57 then Some (k - 48)
         else if 65 \<le> k \<and> k \<le> 70 then Some (k - 55)
         else if 97 \<le> k \<and> k \<le> 102 then Some (k - 87)
         else None)"

definition unescape :: "char \<Rightarrow> char option" where
  "unescape c =
     (if c = CHR 0x22 \<or> c = CHR 0x5C \<or> c = CHR ''/'' then Some c
      else if c = CHR ''b'' then Some (CHR 0x08)
      else if c = CHR ''f'' then Some (CHR 0x0C)
      else if c = CHR ''n'' then Some (CHR 0x0A)
      else if c = CHR ''r'' then Some (CHR 0x0D)
      else if c = CHR ''t'' then Some (CHR 0x09)
      else None)"

definition hex4 :: "string \<Rightarrow> char option" where
  "hex4 s =
     (case map hexValue (take 4 s) of
        [Some a, Some b, Some c, Some d] \<Rightarrow> Some (char_of (((a * 16 + b) * 16 + c) * 16 + d))
      | _ \<Rightarrow> None)"

text \<open>
  The characters of a string after its opening quote, up to the closing quote: the text
  and what follows it. A control character inside a string is a syntax error.
\<close>

fun parseChars :: "string \<Rightarrow> (string \<times> string) option" where
  "parseChars [] = None"
| "parseChars (c # cs) =
     (if c = CHR 0x22 then Some ([], cs)
      else if c = CHR 0x5C then
        (case cs of
           [] \<Rightarrow> None
         | e # cs' \<Rightarrow>
             if e = CHR ''u'' then
               (case hex4 cs' of
                  None \<Rightarrow> None
                | Some d \<Rightarrow> map_option (\<lambda>(s, r). (d # s, r)) (parseChars (drop 4 cs')))
             else
               (case unescape e of
                  None \<Rightarrow> None
                | Some d \<Rightarrow> map_option (\<lambda>(s, r). (d # s, r)) (parseChars cs')))
      else if (of_char c :: nat) < 32 then None
      else map_option (\<lambda>(s, r). (c # s, r)) (parseChars cs))"

text \<open>
  A number: an optional sign, the digits of the whole part (a leading zero stands alone),
  an optional fraction and an optional exponent.
\<close>

definition digitsValue :: "string \<Rightarrow> nat" where
  "digitsValue ds = foldl (\<lambda>a c. 10 * a + ((of_char c :: nat) - 48)) 0 ds"

definition parseNumber :: "string \<Rightarrow> (real \<times> string) option" where
  "parseNumber s =
     (let negative = (case s of [] \<Rightarrow> False | c # _ \<Rightarrow> c = CHR ''-'');
          s1 = (if negative then drop 1 s else s);
          whole = (case s1 of [] \<Rightarrow> [] | c # _ \<Rightarrow> if c = CHR ''0'' then [c] else takeWhile isDigit s1);
          s2 = drop (length whole) s1;
          hasFraction = (case s2 of [] \<Rightarrow> False | c # _ \<Rightarrow> c = CHR ''.'');
          fraction = (if hasFraction then takeWhile isDigit (drop 1 s2) else []);
          s3 = (if hasFraction then drop (Suc (length fraction)) s2 else s2);
          hasExponent = (case s3 of [] \<Rightarrow> False | c # _ \<Rightarrow> c = CHR ''e'' \<or> c = CHR ''E'');
          s4 = (if hasExponent then drop 1 s3 else s3);
          expNegative = (hasExponent \<and> (case s4 of [] \<Rightarrow> False | c # _ \<Rightarrow> c = CHR ''-''));
          expSigned = (hasExponent \<and> (case s4 of [] \<Rightarrow> False | c # _ \<Rightarrow> c = CHR ''-'' \<or> c = CHR ''+''));
          s5 = (if expSigned then drop 1 s4 else s4);
          exponent = (if hasExponent then takeWhile isDigit s5 else []);
          rest = drop (length exponent) s5;
          magnitude = real (digitsValue whole) + real (digitsValue fraction) / 10 ^ length fraction;
          scaled = (if expNegative then magnitude / 10 ^ digitsValue exponent
                    else magnitude * 10 ^ digitsValue exponent)
      in if whole = [] \<or> (hasFraction \<and> fraction = []) \<or> (hasExponent \<and> exponent = [])
         then None
         else Some (if negative then - scaled else scaled, rest))"

text \<open>A value, the elements of an array after its bracket, the members of an object.\<close>

fun parseValue :: "string \<Rightarrow> string \<Rightarrow> parseError + (json \<times> string)"
  and parseElements :: "string \<Rightarrow> string \<Rightarrow> parseError + (json list \<times> string)"
  and parseMembers :: "string \<Rightarrow> string \<Rightarrow> parseError + ((string \<times> json) list \<times> string)" where
  "parseValue [] s = Inl OutOfFuel"
| "parseValue (f # fuel) s =
     (case dropWhile isJsonSpace s of
        [] \<Rightarrow> Inl SyntaxError
      | c # cs \<Rightarrow>
          if c = CHR ''{'' then
            (case dropWhile isJsonSpace cs of
               [] \<Rightarrow> Inl SyntaxError
             | d # ds \<Rightarrow>
                 if d = CHR ''}'' then Inr (JObject [], ds)
                 else (case parseMembers fuel (d # ds) of
                         Inl err \<Rightarrow> Inl err
                       | Inr (members, r) \<Rightarrow> Inr (JObject members, r)))
          else if c = CHR ''['' then
            (case dropWhile isJsonSpace cs of
               [] \<Rightarrow> Inl SyntaxError
             | d # ds \<Rightarrow>
                 if d = CHR '']'' then Inr (JArray [], ds)
                 else (case parseElements fuel (d # ds) of
                         Inl err \<Rightarrow> Inl err
                       | Inr (elements, r) \<Rightarrow> Inr (JArray elements, r)))
          else if c = CHR 0x22 then
            (case parseChars cs of
               None \<Rightarrow> Inl SyntaxError
             | Some (text, r) \<Rightarrow> Inr (JString text, r))
          else if prefix ''true'' (c # cs) then Inr (JBool True, drop 4 (c # cs))
          else if prefix ''false'' (c # cs) then Inr (JBool False, drop 5 (c # cs))
          else if prefix ''null'' (c # cs) then Inr (JNull, drop 4 (c # cs))
          else (case parseNumber (c # cs) of
                  None \<Rightarrow> Inl SyntaxError
                | Some (x, r) \<Rightarrow> Inr (JNumber x, r)))"
| "parseElements [] s = Inl OutOfFuel"
| "parseElements (f # fuel) s =
     (case parseValue fuel s of
        Inl err \<Rightarrow> Inl err
      | Inr (v, r) \<Rightarrow>
          (case dropWhile isJsonSpace r of
             [] \<Rightarrow> Inl SyntaxError
           | c # cs \<Rightarrow>
               if c = CHR '']'' then Inr ([v], cs)
               else if c = CHR '','' then
                 (case parseElements fuel cs of
                    Inl err \<Rightarrow> Inl err
                  | Inr (vs, r') \<Rightarrow> Inr (v # vs, r'))
               else Inl SyntaxError))"
| "parseMembers [] s = Inl OutOfFuel"
| "parseMembers (f # fuel) s =
     (case dropWhile isJsonSpace s of
        [] \<Rightarrow> Inl SyntaxError
      | q # qs \<Rightarrow>
          if q \<noteq> CHR 0x22 then Inl SyntaxError
          else (case parseChars qs of
                  None \<Rightarrow> Inl SyntaxError
                | Some (k, r) \<Rightarrow>
                    (case dropWhile isJsonSpace r of
                       [] \<Rightarrow> Inl SyntaxError
                     | c # cs \<Rightarrow>
                         if c \<noteq> CHR '':'' then Inl SyntaxError
                         else (case parseValue fuel cs of
                                 Inl err \<Rightarrow> Inl err
                               | Inr (v, r') \<Rightarrow>
                                   (case dropWhile isJsonSpace r' of
                                      [] \<Rightarrow> Inl SyntaxError
                                    | d # ds \<Rightarrow>
                                        if d = CHR ''}'' then Inr ([(k, v)], ds)
                                        else if d = CHR '','' then
                                          (case parseMembers fuel ds of
                                             Inl err \<Rightarrow> Inl err
                                           | Inr (ms, r'') \<Rightarrow> Inr ((k, v) # ms, r''))
                                        else Inl SyntaxError)))))"

text \<open>The whole text is one value, with nothing but white space after it.\<close>

definition JSON_parse :: "string \<Rightarrow> parseError + json" where
  "JSON_parse s =
     (case parseValue (CHR ''.'' # s) s of
        Inl err \<Rightarrow> Inl err
      | Inr (v, r) \<Rightarrow> if dropWhile isJsonSpace r = [] then Inr v else Inl SyntaxError)"

section \<open>The recognition client\<close>

record OCRPage =
  pageNumber :: nat
  extractedText :: string
  confidence :: real

text \<open>
  The body of the \<open>try\<close> block of \<open>OCRService.processImage\<close>, with every point
  where it throws: the rejected \<open>fetch\<close>, the explicit \<open>throw\<close> on a response that
  is not ok, the rejected \<open>response.json()\<close>, the access to \<open>data.choices\<close> on
  \<open>null\<close>, and the call of \<open>text.match\<close> inside \<open>calculateConfidence\<close> when
  the content is not a string. The image only travels to the API, whose answer is the
  outcome given here.
\<close>

definition recognize :: "fetchOutcome \<Rightarrow> nat \<Rightarrow> thrown + OCRPage" where
  "recognize outcome n =
     (case outcome of
        FetchRejects error \<Rightarrow> Inl error
      | FetchResolves response \<Rightarrow>
          if \<not> response_ok response
          then Inl (Error (''OCR API request failed: '' @ show_nat (status response)
                 @ '' '' @ statusText response))
          else (case body response of
                  JsonRejects error \<Rightarrow> Inl error
                | JsonResolves data \<Rightarrow>
                    (case extractContent data of
                       Inl error \<Rightarrow> Inl error
                     | Inr (JString text) \<Rightarrow>
                         Inr \<lparr>pageNumber = n, extractedText = trim text,
                              confidence = calculateConfidence text\<rparr>
                     | Inr _ \<Rightarrow> Inl (Error ''text.match is not a function''))))"

text \<open>The page that the \<open>catch\<close> block of \<open>processImage\<close> returns.\<close>

definition errorPlaceholder :: "nat \<Rightarrow> string \<Rightarrow> OCRPage" where
  "errorPlaceholder n message =
     \<lparr>pageNumber = n,
      extractedText = ''[Error processing page '' @ show_nat n @ '': '' @ message @ '']'',
      confidence = 0\<rparr>"

text \<open>\<open>OCRService.processImage\<close>: the \<open>catch\<close> turns every throw into a placeholder page.\<close>

definition processImage :: "fetchOutcome \<Rightarrow> nat \<Rightarrow> OCRPage" where
  "processImage outcome n =
     (case recognize outcome n of
        Inr page \<Rightarrow> page
      | Inl error \<Rightarrow> errorPlaceholder n (errorMessage error))"

section \<open>The external collaborators\<close>

text \<open>
  One call \<open>convert(page, {responseType: 'buffer'})\<close> of the rasterizer throws, or
  returns a result whose \<open>buffer\<close> is missing or present.
\<close>

datatype convertOutcome = ConvertThrows thrown | ConvertReturns "Buffer option"

record ProcessedPage =
  pp_pageNumber :: nat
  pp_buffer :: Buffer

text \<open>
  Everything outside the program, for one request. The rasterizer is called for a page
  at most once while the pages are counted (\<open>probe\<close>) and at most once when the pages
  are converted (\<open>render\<close>), and the two calls need not agree. \<open>sharp\<close> is the
  image pipeline of \<open>optimizeImageForOCR\<close>. \<open>fetch\<close> gives the outcome of the
  recognition call for the page at a position of the list handed to \<open>processPages\<close>.
  \<open>dateNow\<close> gives the successive readings of \<open>Date.now()\<close> and \<open>randomSuffix\<close>
  the random part of the identifier.
\<close>

record Externals =
  probe :: "nat \<Rightarrow> convertOutcome"
  render :: "nat \<Rightarrow> convertOutcome"
  sharp :: "Buffer \<Rightarrow> thrown + Buffer"
  fetch :: "nat \<Rightarrow> fetchOutcome"
  dateNow :: "nat \<Rightarrow> int"
  randomSuffix :: string

section \<open>The recognition of all pages\<close>

record Metadata =
  totalPages :: nat
  processingTime :: int
  averageConfidence :: "real option"

record OCRResult =
  result_id :: string
  pages :: "OCRPage list"
  fullText :: string
  metadata :: Metadata

text \<open>A call of the progress callback: the percentage and the label.\<close>

type_synonym progressCall = "real \<times> string"

text \<open>\<open>Array.prototype.join\<close> on strings.\<close>

fun join :: "string \<Rightarrow> string list \<Rightarrow> string" where
  "join sep [] = []"
| "join sep [x] = x"
| "join sep (x # y # ys) = x @ sep @ join sep (y # ys)"

definition pageBreak :: string where
  "pageBreak = [CHR 0x0A, CHR 0x0A] @ ''--- Page Break ---'' @ [CHR 0x0A, CHR 0x0A]"


text \<open>
  The batch loop of \<open>OCRService.processPages\<close>:
  \<open>for (let i = 0; i < imageBuffers.length; i += batchSize)\<close> with a batch size
  of 3. Mapping over the batch calls the progress callback and starts the recognition of
  each page in the order of the batch, and \<open>Promise.all\<close> returns the results in that
  order whatever the order in which the calls complete.
\<close>

function recognizeBatches ::
  "Externals \<Rightarrow> ProcessedPage list \<Rightarrow> nat \<Rightarrow> progressCall list \<times> OCRPage list
     \<Rightarrow> progressCall list \<times> OCRPage list" where
  "recognizeBatches e imageBuffers i (calls, collected) =
     (if i < length imageBuffers then
        (let batch = take 3 (drop i imageBuffers);
             batchCalls =
               map (\<lambda>p. (5 + (real i / real (length imageBuffers)) * 80,
                          ''Processing page '' @ show_nat (pp_pageNumber p) @ '' of ''
                            @ show_nat (length imageBuffers))) batch;
             batchResults =
               map (\<lambda>(k, p). processImage (fetch e (i + k)) (pp_pageNumber p))
                 (enumerate 0 batch)
         in recognizeBatches e imageBuffers (i + 3) (calls @ batchCalls, collected @ batchResults))
      else (calls, collected))"
  by pat_completeness auto
termination
  by (relation "measure (\<lambda>(e, imageBuffers, i, acc). length imageBuffers - i)") auto

declare recognizeBatches.simps [simp del]

text \<open>
  The quotient that gives \<open>averageConfidence\<close>: \<open>0 / 0\<close> is \<open>NaN\<close> in the source,
  \<open>None\<close> here.
\<close>

definition averageOf :: "OCRPage list \<Rightarrow> real option" where
  "averageOf ps =
     (if length ps = 0 then None
      else Some (foldl (\<lambda>sum page. sum + confidence page) 0 ps / real (length ps)))"

text \<open>
  \<open>OCRService.processPages\<close>, returning the calls of the progress callback with the
  result. The sort of the source is stable and compares page numbers.
\<close>

definition processPages :: "Externals \<Rightarrow> ProcessedPage list \<Rightarrow> progressCall list \<times> OCRResult" where
  "processPages e imageBuffers =
     (let startTime = dateNow e 0;
          processingId = ''ocr_'' @ show_nat (nat (dateNow e 1)) @ ''_'' @ randomSuffix e;
          (calls, collected) =
            recognizeBatches e imageBuffers 0 ([(5, ''Starting OCR processing'')], []);
          calls = calls @ [(90, ''Finalizing text extraction'')];
          sorted_pages = sort_key pageNumber collected;
          text = join pageBreak (map extractedText sorted_pages);
          elapsed = dateNow e 2 - startTime;
          average = averageOf sorted_pages;
          calls = calls @ [(100, ''Processing complete'')]
      in (calls,
          \<lparr>result_id = processingId, pages = sorted_pages, fullText = text,
           metadata = \<lparr>totalPages = length sorted_pages, processingTime = elapsed,
                       averageConfidence = average\<rparr>\<rparr>))"

section \<open>The rasterization of the document\<close>

text \<open>\<open>PDFProcessor.optimizeImageForOCR\<close>: the original buffer when the pipeline throws.\<close>

definition optimizeImageForOCR :: "Externals \<Rightarrow> Buffer \<Rightarrow> Buffer" where
  "optimizeImageForOCR e inputBuffer =
     (case sharp e inputBuffer of Inl error \<Rightarrow> inputBuffer | Inr optimized \<Rightarrow> optimized)"

text \<open>\<open>PDFProcessor.processPage\<close>: \<open>null\<close> when the conversion throws or has no buffer.\<close>

definition processPage :: "Externals \<Rightarrow> nat \<Rightarrow> ProcessedPage option" where
  "processPage e n =
     (case render e n of
        ConvertThrows error \<Rightarrow> None
      | ConvertReturns None \<Rightarrow> None
      | ConvertReturns (Some b) \<Rightarrow>
          Some \<lparr>pp_pageNumber = n, pp_buffer = optimizeImageForOCR e b\<rparr>)"

text \<open>
  The loop that counts the pages: \<open>for (let i = 2; i <= 500; i++)\<close>, leaving at the
  first conversion that throws. A conversion that returns without a buffer counts.
\<close>

function countPages :: "Externals \<Rightarrow> nat \<Rightarrow> nat \<Rightarrow> nat" where
  "countPages e i total_pages =
     (if i \<le> 500 then
        (case probe e i of
           ConvertThrows error \<Rightarrow> total_pages
         | ConvertReturns result \<Rightarrow> countPages e (i + 1) i)
      else total_pages)"
  by pat_completeness auto
termination
  by (relation "measure (\<lambda>(e, i, total_pages). 501 - i)") auto

declare countPages.simps [simp del]

text \<open>
  The batch loop of the conversion: \<open>for (let i = 1; i <= totalPages; i += batchSize)\<close>
  with a batch size of 5; the pages \<open>i\<close> to \<open>min(i + 5, totalPages + 1) - 1\<close> are
  converted, the pages that came back \<open>null\<close> are dropped, and the progress callback
  is called once for the batch.
\<close>

function convertBatches ::
  "Externals \<Rightarrow> nat \<Rightarrow> nat \<Rightarrow> progressCall list \<times> ProcessedPage list
     \<Rightarrow> progressCall list \<times> ProcessedPage list" where
  "convertBatches e total_pages i (calls, processedPages) =
     (if i \<le> total_pages then
        (let batchResults = map (processPage e) [i ..< min (i + 5) (total_pages + 1)];
             validResults = List.map_filter (\<lambda>r. r) batchResults;
             progress = 30 + (real i / real total_pages) * 50;
             call = (progress, ''Processed '' @ show_nat (min (i + 5 - 1) total_pages) @ '' of ''
                      @ show_nat total_pages @ '' pages'')
         in convertBatches e total_pages (i + 5) (calls @ [call], processedPages @ validResults))
      else (calls, processedPages))"
  by pat_completeness auto
termination
  by (relation "measure (\<lambda>(e, total_pages, i, acc). Suc total_pages - i)") auto

declare convertBatches.simps [simp del]

text \<open>
  \<open>PDFProcessor.convertPDFToImages\<close>, returning the calls of the progress callback with
  the pages, or with the message of the error it throws. Whatever is thrown inside is
  caught and thrown again with the prefix \<open>Failed to process PDF: \<close>. Creating the
  converter with \<open>pdf2picFromBuffer\<close> is taken not to throw, so the first conversion
  of page 1 is the only throw that reaches the handler.
\<close>

definition convertPDFToImages ::
  "Externals \<Rightarrow> progressCall list \<times> (string + ProcessedPage list)" where
  "convertPDFToImages e =
     (let calls = [(10, ''Analyzing PDF structure''), (20, ''Converting PDF pages to images'')];
          rethrow = (\<lambda>error. Inl (''Failed to process PDF: '' @ errorMessage error))
      in case probe e 1 of
           ConvertThrows error \<Rightarrow> (calls, rethrow error)
         | ConvertReturns None \<Rightarrow> (calls, rethrow (Error ''Failed to convert first page''))
         | ConvertReturns (Some firstPage) \<Rightarrow>
             (let total_pages = countPages e 2 1;
                  calls = calls @ [(30, ''Converting '' @ show_nat total_pages @ '' pages'')];
                  (calls, processedPages) = convertBatches e total_pages 1 (calls, []);
                  calls = calls @ [(85, ''Optimizing images for OCR'')]
              in (calls, Inr (sort_key pp_pageNumber processedPages))))"

text \<open>
  A conversion fails when it throws or returns no buffer: the test of \<open>processPage\<close>,
  and of the first page in \<open>convertPDFToImages\<close>. The loop that counts the pages
  only sees the throw.
\<close>

definition conversionFails :: "convertOutcome \<Rightarrow> bool" where
  "conversionFails outcome =
     (case outcome of ConvertReturns (Some b) \<Rightarrow> False | _ \<Rightarrow> True)"


section \<open>The request handler\<close>

text \<open>\<open>Math.round\<close>: the nearest integer, a half rounded up.\<close>

definition Math_round :: "real \<Rightarrow> int" where
  "Math_round x = \<lfloor>x + 1 / 2\<rfloor>"

text \<open>The decimal rendering of an integer in a template literal.\<close>

definition show_int :: "int \<Rightarrow> string" where
  "show_int i = (if i < 0 then CHR ''-'' # show_nat (nat (- i)) else show_nat (nat i))"

text \<open>
  What the handler writes to the stream, one chunk for each call of \<open>writer.write\<close>.
  The progress and error frames are texts built by template literals, with the label or
  the message put between the quotes as it is. The complete frame is
  \<open>data: {"type":"complete","result":R}\<close> followed by a blank line, where \<open>R\<close> is
  \<open>JSON.stringify(result)\<close>: one line of JSON by construction, kept here as the result
  it encodes.
\<close>

datatype chunk = Text string | CompleteText OCRResult

definition blankLine :: string where
  "blankLine = [CHR 0x0A, CHR 0x0A]"

definition progressText :: "int \<Rightarrow> string \<Rightarrow> string" where
  \<open>progressText percent step =
     ''data: {"type":"progress","progress":'' @ show_int percent @ '',"step":"'' @ step
       @ ''"}'' @ blankLine\<close>

definition errorText :: "string \<Rightarrow> string" where
  \<open>errorText message =
     ''data: {"type":"error","message":"'' @ message @ ''"}'' @ blankLine\<close>

text \<open>
  The writer of the stream. Writes are queued in the order of the calls; every write to
  an open stream is taken to succeed, and a write after \<open>close\<close> is rejected.
\<close>

record Stream =
  written :: "chunk list"
  closed :: bool

definition writer_write :: "Stream \<Rightarrow> chunk \<Rightarrow> Stream" where
  "writer_write s c = (if closed s then s else s\<lparr>written := written s @ [c]\<rparr>)"

definition writer_close :: "Stream \<Rightarrow> Stream" where
  "writer_close s = s\<lparr>closed := True\<rparr>"

text \<open>The progress callback that the handler passes to both services.\<close>

definition progressChunk :: "progressCall \<Rightarrow> chunk" where
  "progressChunk call = Text (progressText (Math_round (fst call)) (snd call))"

definition onProgress :: "Stream \<Rightarrow> progressCall \<Rightarrow> Stream" where
  "onProgress s call = writer_write s (progressChunk call)"

text \<open>The stream of a new response: nothing written, not closed.\<close>

definition newStream :: Stream where
  "newStream = \<lparr>written = [], closed = False\<rparr>"

text \<open>
  \<open>processOCR\<close>. The only throw inside its \<open>try\<close> block is the one of
  \<open>convertPDFToImages\<close>, which is an \<open>Error\<close> whose message the handler puts into
  the error frame.
\<close>

definition processOCR :: "Externals \<Rightarrow> Stream \<Rightarrow> Stream" where
  \<open>processOCR e writer =
     (let s = writer_write writer
                (Text (''data: {"type":"progress","progress":0,"step":"Starting PDF processing"}''
                   @ blankLine));
          (calls, converted) = convertPDFToImages e;
          s = foldl onProgress s calls
      in case converted of
           Inl message \<Rightarrow> writer_close (writer_write s (Text (errorText message)))
         | Inr images \<Rightarrow>
             if length images = 0
             then writer_close
                    (writer_write s
                       (Text (''data: {"type":"error","message":"No pages could be processed from the PDF"}''
                          @ blankLine)))
             else (let (calls, result) = processPages e images;
                       s = foldl onProgress s calls
                   in writer_close (writer_write s (CompleteText result))))\<close>

section \<open>The reader of the stream\<close>

text \<open>
  The events the client takes from the stream (\<open>handleFileUpload\<close>): it splits the text
  at every line feed, and a line that starts with \<open>data: \<close> once trimmed is parsed from
  its seventh character on. A line that does not parse is skipped with a warning; a
  parsed value is an event when its \<open>type\<close> is \<open>progress\<close>, \<open>complete\<close> or
  \<open>error\<close>, and its other members are read as they are, present or not.
\<close>

datatype completed = Stringified OCRResult | Parsed "json option"

datatype event =
    Progress "json option" "json option"
  | Complete completed
  | ErrorEvent "json option"

text \<open>Reading \<open>data.type\<close> throws on \<open>null\<close>, inside the same \<open>try\<close>.\<close>

definition dispatch :: "json \<Rightarrow> event option" where
  "dispatch data =
     (case data of
        JNull \<Rightarrow> None
      | _ \<Rightarrow>
          if getProp data ''type'' = Some (JString ''progress'')
          then Some (Progress (getProp data ''progress'') (getProp data ''step''))
          else if getProp data ''type'' = Some (JString ''complete'')
          then Some (Complete (Parsed (getProp data ''result'')))
          else if getProp data ''type'' = Some (JString ''error'')
          then Some (ErrorEvent (getProp data ''message''))
          else None)"

definition decodeLine :: "string \<Rightarrow> event option" where
  "decodeLine line =
     (if prefix ''data: '' (trim line)
      then (case JSON_parse (drop 6 line) of Inl err \<Rightarrow> None | Inr data \<Rightarrow> dispatch data)
      else None)"

text \<open>
  Every chunk the handler writes ends with a blank line, so the buffer of the client is
  empty between two chunks and the lines of the stream are the lines of its chunks. What
  follows the last line feed of a chunk stays in the buffer and is not read as a line.
\<close>

fun receivedChunk :: "chunk \<Rightarrow> event list" where
  "receivedChunk (Text t) = List.map_filter decodeLine (butlast (str_split (CHR 0x0A) t))"
| "receivedChunk (CompleteText result) = [Complete (Stringified result)]"

definition received :: "chunk list \<Rightarrow> event list" where
  "received chunks = concat (map receivedChunk chunks)"

text \<open>The terminal events are \<open>complete\<close> and \<open>error\<close>.\<close>

fun isTerminal :: "event \<Rightarrow> bool" where
  "isTerminal (Progress percent label) = False"
| "isTerminal (Complete result) = True"
| "isTerminal (ErrorEvent message) = True"

text \<open>The percentages of the progress events read from a stream, in their order.\<close>

fun percents :: "event list \<Rightarrow> real list" where
  "percents [] = []"
| "percents (Progress (Some (JNumber x)) label # evs) = x # percents evs"
| "percents (ev # evs) = percents evs"

definition progressPercents :: "chunk list \<Rightarrow> real list" where
  "progressPercents chunks = percents (received chunks)"

section \<open>The validation of the upload\<close>

text \<open>\<open>PDFProcessor.validatePDF\<close>; the header is the text of the first 8 bytes.\<close>

record Validation =
  isValid :: bool
  error :: "string option"

definition validatePDF :: "Buffer \<Rightarrow> Validation" where
  "validatePDF buffer =
     (let header = take 8 buffer
      in if \<not> prefix ''%PDF-'' header
         then \<lparr>isValid = False, error = Some ''Invalid PDF format''\<rparr>
         else if length buffer < 1024
         then \<lparr>isValid = False, error = Some ''PDF file too small''\<rparr>
         else if length buffer > 50 * 1024 * 1024
         then \<lparr>isValid = False, error = Some ''PDF file too large (max 50MB)''\<rparr>
         else \<lparr>isValid = True, error = None\<rparr>)"

text \<open>
  The uploaded file: its declared type and its bytes; its size is their number. The
  form data of the request cannot be read, or has the file under \<open>pdf\<close> or not.
\<close>

record File =
  file_type :: string
  file_bytes :: Buffer

datatype formData = FormDataRejects thrown | FormDataResolves "File option"

text \<open>
  The response: a JSON body with a status and an error message, or the event stream with
  status 200, given here with everything the background task writes to it.
\<close>

datatype response = JsonResponse nat string | StreamResponse Stream

definition POST :: "Externals \<Rightarrow> formData \<Rightarrow> response" where
  "POST e request =
     (case request of
        FormDataRejects thrown \<Rightarrow>
          JsonResponse 500 ''Internal server error during OCR processing''
      | FormDataResolves None \<Rightarrow> JsonResponse 400 ''No PDF file provided''
      | FormDataResolves (Some file) \<Rightarrow>
          if file_type file \<noteq> ''application/pdf''
          then JsonResponse 400 ''Only PDF files are supported''
          else if length (file_bytes file) > 50 * 1024 * 1024
          then JsonResponse 400 ''File size exceeds 50MB limit''
          else (let pdfBuffer = file_bytes file;
                    validation = validatePDF pdfBuffer
                in if \<not> isValid validation
                   then JsonResponse 400
                          (case error validation of
                             None \<Rightarrow> ''Invalid PDF file''
                           | Some message \<Rightarrow> if message = [] then ''Invalid PDF file'' else message)
                   else StreamResponse (processOCR e newStream)))"

section \<open>Example inputs\<close>

text \<open>A successful reply of the recognition API with the given content.\<close>

definition exampleReply :: "string \<Rightarrow> fetchOutcome" where
  "exampleReply content =
     FetchResolves \<lparr>status = 200, statusText = ''OK'',
       body = JsonResolves (JObject [(''choices'',
         JArray [JObject [(''message'', JObject [(''content'', JString content)])]])])\<rparr>"

text \<open>A rasterizer call on a document of \<open>n\<close> pages.\<close>

definition pagesUpTo :: "nat \<Rightarrow> nat \<Rightarrow> convertOutcome" where
  "pagesUpTo n p =
     (if 1 \<le> p \<and> p \<le> n then ConvertReturns (Some ''image'')
      else ConvertThrows (Error ''Invalid page number''))"

text \<open>An environment with the given rasterizer and recognition behaviour.\<close>

definition exampleExternals ::
  "(nat \<Rightarrow> convertOutcome) \<Rightarrow> (nat \<Rightarrow> convertOutcome) \<Rightarrow> (nat \<Rightarrow> fetchOutcome)
     \<Rightarrow> Externals" where
  "exampleExternals p r f =
     \<lparr>probe = p, render = r, sharp = (\<lambda>b. Inr b), fetch = f,
      dateNow = (\<lambda>k. 1700000000000 + int k), randomSuffix = ''k3x9q2m1z''\<rparr>"

text \<open>
  Three pages handed over out of order; the recognition of the second one, page 1, is
  rejected with a value that is not an \<open>Error\<close>.
\<close>

definition examplePages :: "ProcessedPage list" where
  "examplePages = [\<lparr>pp_pageNumber = 3, pp_buffer = ''image3''\<rparr>,
                   \<lparr>pp_pageNumber = 1, pp_buffer = ''image1''\<rparr>,
                   \<lparr>pp_pageNumber = 2, pp_buffer = ''image2''\<rparr>]"

definition exampleReplies :: "nat \<Rightarrow> fetchOutcome" where
  "exampleReplies k =
     (if k = 0 then exampleReply ''Gamma''
      else if k = 1 then FetchRejects NonError
      else exampleReply ''Beta'')"








text \<open>A document of one page whose recognition answers \<open>Hello\<close>.\<close>

definition onePageDocument :: Externals where
  "onePageDocument = exampleExternals (pagesUpTo 1) (pagesUpTo 1) (\<lambda>k. exampleReply ''Hello'')"

text \<open>A document whose only page is counted but whose conversion then throws.\<close>

definition noPageRendered :: Externals where
  "noPageRendered = exampleExternals (pagesUpTo 1) (pagesUpTo 0) exampleReplies"

text \<open>An upload of 60MB declared as a PDF.\<close>

definition oversizedFile :: File where
  "oversizedFile = \<lparr>file_type = ''application/pdf'',
                     file_bytes = replicate (60 * 1024 * 1024) (CHR ''a'')\<rparr>"

text \<open>
  A document whose first conversion throws with a message that holds double quotes, as
  the messages of the conversion tools do when they name a file.
\<close>

definition unreadableDocument :: Externals where
  \<open>unreadableDocument =
     exampleExternals (\<lambda>n. ConvertThrows (Error ''Unable to open file "page.pdf"''))
       (pagesUpTo 0) exampleReplies\<close>

section \<open>Properties of the confidence heuristic\<close>

lemma punctuation_condition:
  "(case matchResult (punctuationMatches text) of
      None \<Rightarrow> (0::nat) > 0
    | Some ms \<Rightarrow> length ms \<noteq> 0 \<or> (0::nat) > 0)
   = list_ex (\<lambda>c. c \<in> set ''.!?'') text"
  by (auto simp: matchResult_def punctuationMatches_def filter_empty_conv list_ex_iff)

lemma capitalized_condition:
  "(case matchResult (capitalizedMatches False text) of
      None \<Rightarrow> (0::nat) > 3
    | Some ms \<Rightarrow> length ms \<noteq> 0 \<or> (0::nat) > 3)
   = (capitalizedMatches False text \<noteq> [])"
  by (simp add: matchResult_def)

text \<open>
  The source and the reference heuristic agree on every text that has no capitalized
  word or more than three of them.
\<close>

lemma calculateConfidence_reference_agree:
  assumes "capitalizedMatches False text = [] \<or> length (capitalizedMatches False text) > 3"
  shows "calculateConfidence text = referenceConfidence text"
proof -
  from assms
  have eq: "(capitalizedMatches False text \<noteq> []) = (length (capitalizedMatches False text) > 3)"
    by auto
  show ?thesis
    unfolding calculateConfidence_def referenceConfidence_def
      punctuation_condition capitalized_condition eq
    by (rule refl)
qed

lemma clamp_range: "0 \<le> max 0 (min 1 (x::real)) \<and> max 0 (min 1 x) \<le> 1"
  by simp

lemma calculateConfidence_range:
  "0 \<le> calculateConfidence text \<and> calculateConfidence text \<le> 1"
  unfolding calculateConfidence_def Let_def by (rule clamp_range)

text \<open>
  Claim C1: calculateConfidence computes the reference heuristic, whose bonus of 0.05
  for capitalized words is given when more than three such words appear. On the text
  \<open>Hello\<close>, which has one capitalized word, the source gives the bonus and returns
  0.55, where the reference heuristic returns 0.5.
\<close>

theorem calculateConfidence_one_capitalized_word:
  "calculateConfidence ''Hello'' = 0.55 \<and> referenceConfidence ''Hello'' = 0.5"
  by (simp add: calculateConfidence_def referenceConfidence_def matchResult_def
      punctuationMatches_def isUpper_def isLower_def isDigit_def isWordChar_def)

theorem calculateConfidence_one_capitalized_word_witness:
  "calculateConfidence ''Hello'' - referenceConfidence ''Hello'' = 0.05"
  using calculateConfidence_one_capitalized_word by simp

section \<open>Properties of the recognition client\<close>


lemma str_includes_prefix: "prefix sub s \<Longrightarrow> str_includes s sub"
  by (cases s) auto

lemma str_includes_prefix_of: "prefix sub' s \<Longrightarrow> prefix sub sub' \<Longrightarrow> str_includes s sub"
  by (meson prefix_order.trans str_includes_prefix)






section \<open>Properties of the recognition of all pages\<close>

lemma enumerate_batch:
  "map (\<lambda>(k, p). g (i + k) p) (enumerate 0 (take m (drop i xs)))
     = map (\<lambda>k. g k (xs ! k)) [i ..< min (i + m) (length xs)]"
  by (rule nth_equalityI) (auto simp: nth_enumerate_eq)

lemma upt_batch:
  "i < n \<Longrightarrow> [i ..< min (i + m) n] @ [i + m ..< n] = [i ..< n]"
  by (metis le_add1 min_def upt_add_eq_append upt_conv_Nil le_iff_add append_Nil2 nat_le_linear)

text \<open>The batch loop collects one result for each page, in the order of the input.\<close>

lemma recognizeBatches_collected:
  "snd (recognizeBatches e bufs i (calls, acc))
     = acc @ map (\<lambda>k. processImage (fetch e k) (pp_pageNumber (bufs ! k))) [i ..< length bufs]"
proof (induction e bufs i "(calls, acc)" arbitrary: calls acc rule: recognizeBatches.induct)
  case (1 e imageBuffers i calls collected)
  show ?case
  proof (cases "i < length imageBuffers")
    case True
    have "snd (recognizeBatches e imageBuffers i (calls, collected))
        = (collected @ map (\<lambda>k. processImage (fetch e k) (pp_pageNumber (imageBuffers ! k)))
             [i ..< min (i + 3) (length imageBuffers)])
          @ map (\<lambda>k. processImage (fetch e k) (pp_pageNumber (imageBuffers ! k)))
             [i + 3 ..< length imageBuffers]"
      using True "1.hyps"[OF True refl refl refl]
      by (subst recognizeBatches.simps)
         (simp add: Let_def
            enumerate_batch[where g = "\<lambda>k p. processImage (fetch e k) (pp_pageNumber p)"])
    also have "\<dots> = collected
          @ map (\<lambda>k. processImage (fetch e k) (pp_pageNumber (imageBuffers ! k)))
              ([i ..< min (i + 3) (length imageBuffers)] @ [i + 3 ..< length imageBuffers])"
      by simp
    finally show ?thesis by (simp only: upt_batch[OF True])
  next
    case False
    then show ?thesis by (subst recognizeBatches.simps) simp
  qed
qed

lemma processPages_pages:
  "pages (snd (processPages e bufs))
     = sort_key pageNumber
         (map (\<lambda>k. processImage (fetch e k) (pp_pageNumber (bufs ! k))) [0 ..< length bufs])"
  by (simp add: processPages_def Let_def case_prod_beta recognizeBatches_collected)

lemma processPages_metadata:
  "totalPages (metadata (snd (processPages e bufs))) = length (pages (snd (processPages e bufs)))
   \<and> averageConfidence (metadata (snd (processPages e bufs)))
       = averageOf (pages (snd (processPages e bufs)))
   \<and> fullText (snd (processPages e bufs))
       = join pageBreak (map extractedText (pages (snd (processPages e bufs))))"
  by (simp add: processPages_def Let_def case_prod_beta)



lemma processPages_length: "length (pages (snd (processPages e bufs))) = length bufs"
  by (simp add: processPages_pages)

lemma foldl_confidence:
  "foldl (\<lambda>sum page. sum + confidence page) a ps = a + sum_list (map confidence ps)"
  by (induction ps arbitrary: a) simp_all




lemma examplePages_result:
  "pages (snd (processPages (exampleExternals (pagesUpTo 3) (pagesUpTo 3) exampleReplies)
                 examplePages))
    = [\<lparr>pageNumber = 1, extractedText = ''[Error processing page 1: Unknown error]'',
        confidence = 0\<rparr>,
       \<lparr>pageNumber = 2, extractedText = ''Beta'', confidence = 0.55\<rparr>,
       \<lparr>pageNumber = 3, extractedText = ''Gamma'', confidence = 0.55\<rparr>]"
  by (simp add: processPages_pages examplePages_def exampleExternals_def exampleReplies_def
       exampleReply_def upt_rec_numeral processImage_def recognize_def response_ok_def
       extractContent_def errorPlaceholder_def show_nat.simps digitChar_def trim_def
       isWhiteSpace_def calculateConfidence_def matchResult_def punctuationMatches_def
       isUpper_def isLower_def isDigit_def isWordChar_def)



text \<open>
  Claim C7: for a non-empty list of pages, averageConfidence is the sum of the
  confidences of the pages of the result divided by their number.
\<close>

theorem processPages_averageConfidence:
  assumes "imageBuffers \<noteq> []"
  shows "averageConfidence (metadata (snd (processPages e imageBuffers)))
           = Some (sum_list (map confidence (pages (snd (processPages e imageBuffers))))
                   / real (length (pages (snd (processPages e imageBuffers)))))"
proof -
  have "pages (snd (processPages e imageBuffers)) \<noteq> []"
    using assms processPages_length[of e imageBuffers] by auto
  then show ?thesis
    by (simp add: processPages_metadata averageOf_def foldl_confidence)
qed

theorem processPages_averageConfidence_witness:
  "examplePages \<noteq> []
   \<and> averageConfidence (metadata (snd (processPages
         (exampleExternals (pagesUpTo 3) (pagesUpTo 3) exampleReplies) examplePages)))
       = Some (11 / 30)"
  using processPages_averageConfidence
          [of examplePages "exampleExternals (pagesUpTo 3) (pagesUpTo 3) exampleReplies"]
        examplePages_result
  by (simp add: examplePages_def)

section \<open>Properties of the rasterization\<close>

lemma processPage_None: "(processPage e n = None) = conversionFails (render e n)"
  by (simp add: processPage_def conversionFails_def split: convertOutcome.splits option.splits)

lemma processPage_Some: "processPage e n = Some p \<Longrightarrow> pp_pageNumber p = n"
  by (auto simp: processPage_def split: convertOutcome.splits option.splits)

lemma map_filter_append: "List.map_filter f (xs @ ys) = List.map_filter f xs @ List.map_filter f ys"
  by (simp add: List.map_filter_def)

lemma map_filter_map_id: "List.map_filter (\<lambda>r. r) (map f xs) = List.map_filter f xs"
  by (induction xs) (simp_all add: List.map_filter_def)

lemma convertBatches_pages:
  "snd (convertBatches e total_pages i (calls, acc))
     = acc @ List.map_filter (processPage e) [i ..< Suc total_pages]"
proof (induction e total_pages i "(calls, acc)" arbitrary: calls acc rule: convertBatches.induct)
  case (1 e total_pages i calls processedPages)
  show ?case
  proof (cases "i \<le> total_pages")
    case True
    then have split: "[i ..< min (i + 5) (total_pages + 1)] @ [i + 5 ..< Suc total_pages] = [i ..< Suc total_pages]"
      using upt_batch[of i "Suc total_pages" 5] by simp
    have "snd (convertBatches e total_pages i (calls, processedPages))
        = (processedPages @ List.map_filter (processPage e) [i ..< min (i + 5) (total_pages + 1)])
          @ List.map_filter (processPage e) [i + 5 ..< Suc total_pages]"
      using True "1.hyps"[OF True refl refl refl refl]
      by (subst convertBatches.simps) (simp add: Let_def map_filter_map_id)
    then show ?thesis
      by (simp only: append_assoc map_filter_append[symmetric] split)
  next
    case False
    then show ?thesis by (subst convertBatches.simps) (simp add: List.map_filter_def)
  qed
qed

lemma map_filter_processPage_numbers:
  "map pp_pageNumber (List.map_filter (processPage e) ns)
     = filter (\<lambda>n. \<not> conversionFails (render e n)) ns"
  by (induction ns)
     (auto simp: List.map_filter_def processPage_None[symmetric] processPage_Some)

lemma sorted_converted:
  "sorted_wrt (<) (map pp_pageNumber (List.map_filter (processPage e) [i ..< j]))"
  unfolding map_filter_processPage_numbers
  by (simp add: sorted_wrt_filter strict_sorted_iff)

lemma countPages_bounds:
  "t \<le> 500 \<Longrightarrow> Suc t = i \<Longrightarrow> t \<le> countPages e i t \<and> countPages e i t \<le> 500"
proof (induction e i t rule: countPages.induct)
  case (1 e i total_pages)
  show ?case
  proof (cases "i \<le> 500")
    case True
    show ?thesis
    proof (cases "probe e i")
      case (ConvertThrows err)
      with True "1.prems" show ?thesis by (subst (1 2) countPages.simps) simp
    next
      case (ConvertReturns result)
      with True "1.prems" "1.IH"[OF True ConvertReturns] show ?thesis
        by (subst (1 2) countPages.simps) simp
    qed
  next
    case False
    with "1.prems" show ?thesis by (subst (1 2) countPages.simps) simp
  qed
qed

lemma sort_converted:
  "sort_key pp_pageNumber (List.map_filter (processPage e) [i ..< j])
     = List.map_filter (processPage e) [i ..< j]"
  using sorted_converted[of e i j]
  by (intro sort_key_id_if_sorted) (simp add: strict_sorted_iff)

lemma convertPDFToImages_result:
  "snd (convertPDFToImages e)
     = (case probe e 1 of
          ConvertThrows err \<Rightarrow> Inl (''Failed to process PDF: '' @ errorMessage err)
        | ConvertReturns None \<Rightarrow> Inl ''Failed to process PDF: Failed to convert first page''
        | ConvertReturns (Some firstPage) \<Rightarrow>
            Inr (List.map_filter (processPage e) [1 ..< Suc (countPages e 2 1)]))"
  by (simp add: convertPDFToImages_def Let_def case_prod_beta convertBatches_pages
        sort_converted del: upt_Suc
      split: convertOutcome.splits option.splits)





lemma noPageRendered_converted: "snd (convertPDFToImages noPageRendered) = Inr []"
  by (simp only: convertPDFToImages_result)
     (simp add: countPages.simps noPageRendered_def exampleExternals_def pagesUpTo_def
        processPage_def)







section \<open>Properties of the recognition of a converted document\<close>














section \<open>Properties of the request handler\<close>

lemma foldl_onProgress:
  "\<not> closed s \<Longrightarrow>
   written (foldl onProgress s calls) = written s @ map progressChunk calls
   \<and> \<not> closed (foldl onProgress s calls)"
  by (induction calls arbitrary: s) (simp_all add: onProgress_def writer_write_def)

lemma startText:
  \<open>''data: {"type":"progress","progress":0,"step":"Starting PDF processing"}'' @ blankLine
     = progressText (Math_round 0) ''Starting PDF processing''\<close>
  by (simp add: progressText_def show_int_def show_nat.simps digitChar_def Math_round_def)

lemma noPagesText:
  \<open>''data: {"type":"error","message":"No pages could be processed from the PDF"}'' @ blankLine
     = errorText ''No pages could be processed from the PDF''\<close>
  by (simp add: errorText_def)

lemma processOCR_written:
  "written (processOCR e newStream)
     = progressChunk (0, ''Starting PDF processing'')
       # map progressChunk (fst (convertPDFToImages e))
       @ (case snd (convertPDFToImages e) of
            Inl message \<Rightarrow> [Text (errorText message)]
          | Inr images \<Rightarrow>
              if images = [] then [Text (errorText ''No pages could be processed from the PDF'')]
              else map progressChunk (fst (processPages e images))
                   @ [CompleteText (snd (processPages e images))])"
  unfolding processOCR_def startText noPagesText
  by (simp add: Let_def case_prod_beta newStream_def writer_write_def
        writer_close_def foldl_onProgress progressChunk_def
      split: sum.splits)

lemma processOCR_closed: "closed (processOCR e newStream)"
  by (simp add: processOCR_def Let_def case_prod_beta writer_close_def split: sum.splits)

lemma onePage_decoded:
  "progressPercents
     (map progressChunk
        [(0, ''Starting PDF processing''), (10, ''Analyzing PDF structure''),
         (20, ''Converting PDF pages to images''), (30, ''Converting 1 pages''),
         (80, ''Processed 1 of 1 pages''), (85, ''Optimizing images for OCR''),
         (5, ''Starting OCR processing''), (5, ''Processing page 1 of 1''),
         (90, ''Finalizing text extraction''), (100, ''Processing complete'')]
      @ [CompleteText r])
   = [0, 10, 20, 30, 80, 85, 5, 5, 90, 100]"
  by code_simp
lemma convertPDFToImages_calls:
  "fst (convertPDFToImages e)
     = (if conversionFails (probe e 1)
        then [(10, ''Analyzing PDF structure''), (20, ''Converting PDF pages to images'')]
        else fst (convertBatches e (countPages e 2 1) 1
                    ([(10, ''Analyzing PDF structure''), (20, ''Converting PDF pages to images''),
                      (30, ''Converting '' @ show_nat (countPages e 2 1) @ '' pages'')], []))
             @ [(85, ''Optimizing images for OCR'')])"
  by (simp add: convertPDFToImages_def Let_def case_prod_beta conversionFails_def
      split: convertOutcome.splits option.splits)

lemma processPages_calls:
  "fst (processPages e bufs)
     = fst (recognizeBatches e bufs 0 ([(5, ''Starting OCR processing'')], []))
       @ [(90, ''Finalizing text extraction''), (100, ''Processing complete'')]"
  by (simp add: processPages_def Let_def case_prod_beta)

lemma onePage_converted:
  "snd (convertPDFToImages onePageDocument) = Inr [\<lparr>pp_pageNumber = 1, pp_buffer = ''image''\<rparr>]"
  by (simp only: convertPDFToImages_result)
     (simp add: countPages.simps onePageDocument_def exampleExternals_def pagesUpTo_def
        processPage_def optimizeImageForOCR_def)

lemma onePage_convert_calls:
  "fst (convertPDFToImages onePageDocument)
     = [(10, ''Analyzing PDF structure''), (20, ''Converting PDF pages to images''),
        (30, ''Converting 1 pages''), (80, ''Processed 1 of 1 pages''),
        (85, ''Optimizing images for OCR'')]"
proof -
  have c: "countPages onePageDocument 2 1 = 1"
    by (simp add: countPages.simps onePageDocument_def exampleExternals_def pagesUpTo_def)
  have p: "\<not> conversionFails (probe onePageDocument 1)"
    by (simp add: conversionFails_def onePageDocument_def exampleExternals_def pagesUpTo_def)
  show ?thesis
    unfolding convertPDFToImages_calls c
    using p by (simp add: convertBatches.simps Let_def show_nat.simps digitChar_def)
qed

lemma onePage_recognize_calls:
  "fst (processPages onePageDocument [\<lparr>pp_pageNumber = Suc 0, pp_buffer = ''image''\<rparr>])
     = [(5, ''Starting OCR processing''), (5, ''Processing page 1 of 1''),
        (90, ''Finalizing text extraction''), (100, ''Processing complete'')]"
  unfolding processPages_calls
  by (simp add: recognizeBatches.simps Let_def show_nat.simps digitChar_def)

lemma onePage_written:
  "written (processOCR onePageDocument newStream)
     = map progressChunk
        [(0, ''Starting PDF processing''), (10, ''Analyzing PDF structure''),
         (20, ''Converting PDF pages to images''), (30, ''Converting 1 pages''),
         (80, ''Processed 1 of 1 pages''), (85, ''Optimizing images for OCR''),
         (5, ''Starting OCR processing''), (5, ''Processing page 1 of 1''),
         (90, ''Finalizing text extraction''), (100, ''Processing complete'')]
       @ [CompleteText (snd (processPages onePageDocument
            [\<lparr>pp_pageNumber = 1, pp_buffer = ''image''\<rparr>]))]"
  unfolding processOCR_written onePage_converted
  by (simp add: onePage_convert_calls onePage_recognize_calls)

lemma Math_round_mono: "x \<le> y \<Longrightarrow> Math_round x \<le> Math_round y"
  by (simp add: Math_round_def floor_mono)

lemma Math_round_le: "x \<le> of_int k \<Longrightarrow> Math_round x \<le> k"
  unfolding Math_round_def by linarith

lemma sorted_Math_round: "sorted (map fst calls) \<Longrightarrow> sorted (map (\<lambda>c. Math_round (fst c)) calls)"
  by (induction calls) (auto simp: Math_round_mono)

lemma sorted_map_const: "sorted (map (\<lambda>x. c) xs)"
  by (induction xs) simp_all

lemma percent_le:
  "(x::real) \<le> 1 \<Longrightarrow> 0 \<le> b \<Longrightarrow> a + x * b \<le> a + b"
  by (simp add: mult_left_le_one_le mult.commute mult_left_le)

lemma percent_mono:
  "(x::real) \<le> y \<Longrightarrow> 0 \<le> b \<Longrightarrow> c \<le> a + x * b \<Longrightarrow> c \<le> a + y * b"
  by (smt (verit) mult_right_mono)

lemma convertBatches_calls_sorted:
  "0 < total_pages \<Longrightarrow> sorted (map fst calls)
   \<Longrightarrow> (\<forall>c \<in> set calls. fst c \<le> 30 + real i / real total_pages * 50 \<and> fst c \<le> 80)
   \<Longrightarrow> sorted (map fst (fst (convertBatches e total_pages i (calls, acc))))
       \<and> (\<forall>c \<in> set (fst (convertBatches e total_pages i (calls, acc))). fst c \<le> 80)"
proof (induction e total_pages i "(calls, acc)" arbitrary: calls acc rule: convertBatches.induct)
  case (1 e total_pages i calls processedPages)
  show ?case
  proof (cases "i \<le> total_pages")
    case True
    let ?p = "30 + real i / real total_pages * 50"
    let ?call = "(?p, ''Processed '' @ show_nat (min (i + 5 - 1) total_pages) @ '' of ''
                      @ show_nat total_pages @ '' pages'')"
    have q: "real i / real total_pages \<le> 1"
      using True "1.prems"(1) by simp
    then have p80: "?p \<le> 80" using percent_le[of "real i / real total_pages" 50 30] by simp
    have mono: "real i / real total_pages \<le> real (i + 5) / real total_pages"
      using "1.prems"(1) by (simp add: divide_right_mono)
    have s: "sorted (map fst (calls @ [?call]))"
      using "1.prems"(2,3) by (auto simp: sorted_append)
    have b: "\<forall>c \<in> set (calls @ [?call]).
               fst c \<le> 30 + real (i + 5) / real total_pages * 50 \<and> fst c \<le> 80"
    proof
      fix c assume "c \<in> set (calls @ [?call])"
      then have "fst c \<le> ?p \<and> fst c \<le> 80"
        using "1.prems"(3) p80 by auto
      with mono show "fst c \<le> 30 + real (i + 5) / real total_pages * 50 \<and> fst c \<le> 80"
        using percent_mono[of "real i / real total_pages" "real (i + 5) / real total_pages" 50 "fst c" 30]
        by simp
    qed
    have "convertBatches e total_pages i (calls, processedPages)
        = convertBatches e total_pages (i + 5)
            (calls @ [?call],
             processedPages @ List.map_filter (\<lambda>r. r)
               (map (processPage e) [i ..< min (i + 5) (total_pages + 1)]))"
      using True by (subst convertBatches.simps) (simp add: Let_def)
    then show ?thesis
      using "1.hyps"[OF True refl refl refl refl "1.prems"(1) s b] by simp
  next
    case False
    then show ?thesis
      using "1.prems" by (subst (1 2) convertBatches.simps) simp
  qed
qed

lemma recognizeBatches_calls_sorted:
  "sorted (map fst calls)
   \<Longrightarrow> (\<forall>c \<in> set calls. fst c \<le> 5 + real i / real (length bufs) * 80 \<and> fst c \<le> 85)
   \<Longrightarrow> sorted (map fst (fst (recognizeBatches e bufs i (calls, acc))))
       \<and> (\<forall>c \<in> set (fst (recognizeBatches e bufs i (calls, acc))). fst c \<le> 85)"
proof (induction e bufs i "(calls, acc)" arbitrary: calls acc rule: recognizeBatches.induct)
  case (1 e imageBuffers i calls collected)
  show ?case
  proof (cases "i < length imageBuffers")
    case True
    let ?n = "length imageBuffers"
    let ?p = "5 + real i / real ?n * 80"
    let ?batchCalls = "map (\<lambda>p. (?p, ''Processing page '' @ show_nat (pp_pageNumber p) @ '' of ''
                            @ show_nat ?n)) (take 3 (drop i imageBuffers))"
    have "0 < ?n" using True by auto
    then have q: "real i / real ?n \<le> 1"
      using True by simp
    then have p85: "?p \<le> 85" using percent_le[of "real i / real ?n" 80 5] by simp
    have mono: "real i / real ?n \<le> real (i + 3) / real ?n"
      by (simp add: divide_right_mono)
    have fsts: "\<forall>c \<in> set ?batchCalls. fst c = ?p" by auto
    have s: "sorted (map fst (calls @ ?batchCalls))"
      using "1.prems"(1,2) by (auto simp: sorted_append o_def sorted_map_const)
    have b: "\<forall>c \<in> set (calls @ ?batchCalls).
               fst c \<le> 5 + real (i + 3) / real ?n * 80 \<and> fst c \<le> 85"
    proof
      fix c assume "c \<in> set (calls @ ?batchCalls)"
      then have "fst c \<le> ?p \<and> fst c \<le> 85"
        using "1.prems"(2) p85 fsts by auto
      with mono show "fst c \<le> 5 + real (i + 3) / real ?n * 80 \<and> fst c \<le> 85"
        using percent_mono[of "real i / real ?n" "real (i + 3) / real ?n" 80 "fst c" 5]
        by simp
    qed
    have "recognizeBatches e imageBuffers i (calls, collected)
        = recognizeBatches e imageBuffers (i + 3)
            (calls @ ?batchCalls,
             collected @ map (\<lambda>(k, p). processImage (fetch e (i + k)) (pp_pageNumber p))
                 (enumerate 0 (take 3 (drop i imageBuffers))))"
      using True by (subst recognizeBatches.simps) (simp add: Let_def)
    then show ?thesis
      using "1.hyps"[OF True refl refl refl s b] by simp
  next
    case False
    then show ?thesis
      using "1.prems" by (subst (1 2) recognizeBatches.simps) simp
  qed
qed
lemma Math_round_ge: "of_int k \<le> x \<Longrightarrow> k \<le> Math_round x"
  unfolding Math_round_def by linarith

lemma convertBatches_calls_extend:
  "\<exists>extra. fst (convertBatches e total_pages i (calls, acc)) = calls @ extra"
proof (induction e total_pages i "(calls, acc)" arbitrary: calls acc rule: convertBatches.induct)
  case (1 e total_pages i calls processedPages)
  show ?case
  proof (cases "i \<le> total_pages")
    case True
    from "1.hyps"[OF True refl refl refl refl] True show ?thesis
      by (subst convertBatches.simps) (auto simp: Let_def)
  next
    case False
    then show ?thesis by (subst convertBatches.simps) simp
  qed
qed

lemma convertPDFToImages_calls_sorted:
  "sorted (map fst (fst (convertPDFToImages e)))
   \<and> (\<forall>c \<in> set (fst (convertPDFToImages e)). 10 \<le> fst c \<and> fst c \<le> 85)"
proof (cases "conversionFails (probe e 1)")
  case True
  then show ?thesis by (simp add: convertPDFToImages_calls)
next
  case False
  let ?t = "countPages e 2 1"
  let ?calls = "[(10, ''Analyzing PDF structure''), (20, ''Converting PDF pages to images''),
                 (30, ''Converting '' @ show_nat ?t @ '' pages'')] :: progressCall list"
  let ?all = "fst (convertBatches e ?t 1 (?calls, []))"
  have t: "0 < ?t"
    using countPages_bounds[of 1 2 e] by simp
  have inv: "sorted (map fst ?all) \<and> (\<forall>c \<in> set ?all. fst c \<le> 80)"
    using t by (intro convertBatches_calls_sorted) auto
  obtain extra where ex: "?all = ?calls @ extra"
    using convertBatches_calls_extend by blast
  have lo: "\<forall>c \<in> set ?all. 10 \<le> fst c"
  proof
    fix c assume c: "c \<in> set ?all"
    show "10 \<le> fst c"
    proof (cases "c \<in> set ?calls")
      case True
      then show ?thesis by auto
    next
      case False
      with c ex have "c \<in> set extra" by auto
      with inv ex have "30 \<le> fst c" by (auto simp: sorted_append)
      then show ?thesis by simp
    qed
  qed
  have "fst (convertPDFToImages e) = ?all @ [(85, ''Optimizing images for OCR'')]"
    using False by (simp add: convertPDFToImages_calls)
  with inv lo show ?thesis
    by (auto simp: sorted_append)
qed

lemma recognizeBatches_calls_start:
  "sorted (map fst (fst (recognizeBatches e bufs 0 ([(5, ''Starting OCR processing'')], []))))
   \<and> (\<forall>c \<in> set (fst (recognizeBatches e bufs 0 ([(5, ''Starting OCR processing'')], []))).
         fst c \<le> 85)"
  by (intro recognizeBatches_calls_sorted) auto

lemma count_list_zero: "(\<forall>x \<in> set xs. x \<noteq> y) \<Longrightarrow> count_list xs y = 0"
  by (induction xs) auto

lemma count_list_append: "count_list (xs @ ys) y = count_list xs y + count_list ys y"
  by (induction xs) auto

lemma unreadable_written:
  \<open>written (processOCR unreadableDocument newStream)
     = [Text (progressText 0 ''Starting PDF processing''),
        Text (progressText 10 ''Analyzing PDF structure''),
        Text (progressText 20 ''Converting PDF pages to images''),
        Text (''data: {"type":"error","message":"Failed to process PDF: Unable to open file "page.pdf""}''
                @ blankLine)]\<close>
proof -
  have f: "conversionFails (probe unreadableDocument 1)"
    by (simp add: conversionFails_def unreadableDocument_def exampleExternals_def)
  have r: \<open>snd (convertPDFToImages unreadableDocument)
             = Inl ''Failed to process PDF: Unable to open file "page.pdf"''\<close>
    by (simp only: convertPDFToImages_result)
       (simp add: unreadableDocument_def exampleExternals_def)
  show ?thesis
    unfolding processOCR_written r convertPDFToImages_calls
    using f by (simp add: progressChunk_def Math_round_def errorText_def)
qed

lemma unreadable_received:
  \<open>received
     [Text (progressText 0 ''Starting PDF processing''),
      Text (progressText 10 ''Analyzing PDF structure''),
      Text (progressText 20 ''Converting PDF pages to images''),
      Text (''data: {"type":"error","message":"Failed to process PDF: Unable to open file "page.pdf""}''
              @ blankLine)]
   = [Progress (Some (JNumber 0)) (Some (JString ''Starting PDF processing'')),
      Progress (Some (JNumber 10)) (Some (JString ''Analyzing PDF structure'')),
      Progress (Some (JNumber 20)) (Some (JString ''Converting PDF pages to images''))]\<close>
  by code_simp

lemma unreadable_line:
  \<open>JSON_parse ''{"type":"error","message":"Failed to process PDF: Unable to open file "page.pdf""}''
     = Inl SyntaxError\<close>
  by code_simp

lemma noPageRendered_received:
  "filter isTerminal (received (written (processOCR noPageRendered newStream)))
     = [ErrorEvent (Some (JString ''No pages could be processed from the PDF''))]"
proof -
  have c: "countPages noPageRendered 2 1 = 1"
    by (simp add: countPages.simps noPageRendered_def exampleExternals_def pagesUpTo_def)
  have p: "\<not> conversionFails (probe noPageRendered 1)"
    by (simp add: conversionFails_def noPageRendered_def exampleExternals_def pagesUpTo_def)
  have calls: "fst (convertPDFToImages noPageRendered)
     = [(10, ''Analyzing PDF structure''), (20, ''Converting PDF pages to images''),
        (30, ''Converting 1 pages''), (80, ''Processed 1 of 1 pages''),
        (85, ''Optimizing images for OCR'')]"
    unfolding convertPDFToImages_calls c
    using p by (simp add: convertBatches.simps Let_def show_nat.simps digitChar_def)
  have w: "written (processOCR noPageRendered newStream)
     = map progressChunk
        [(0, ''Starting PDF processing''), (10, ''Analyzing PDF structure''),
         (20, ''Converting PDF pages to images''), (30, ''Converting 1 pages''),
         (80, ''Processed 1 of 1 pages''), (85, ''Optimizing images for OCR'')]
       @ [Text (errorText ''No pages could be processed from the PDF'')]"
    unfolding processOCR_written noPageRendered_converted by (simp add: calls)
  have "filter isTerminal (received
     (map progressChunk
        [(0, ''Starting PDF processing''), (10, ''Analyzing PDF structure''),
         (20, ''Converting PDF pages to images''), (30, ''Converting 1 pages''),
         (80, ''Processed 1 of 1 pages''), (85, ''Optimizing images for OCR'')]
       @ [Text (errorText ''No pages could be processed from the PDF'')]))
     = [ErrorEvent (Some (JString ''No pages could be processed from the PDF''))]"
    by code_simp
  then show ?thesis by (simp only: w)
qed

lemma onePage_received:
  "filter isTerminal (received (written (processOCR onePageDocument newStream)))
     = [Complete (Stringified (snd (processPages onePageDocument
            [\<lparr>pp_pageNumber = 1, pp_buffer = ''image''\<rparr>])))]"
proof -
  have "filter isTerminal (received
     (map progressChunk
        [(0, ''Starting PDF processing''), (10, ''Analyzing PDF structure''),
         (20, ''Converting PDF pages to images''), (30, ''Converting 1 pages''),
         (80, ''Processed 1 of 1 pages''), (85, ''Optimizing images for OCR''),
         (5, ''Starting OCR processing''), (5, ''Processing page 1 of 1''),
         (90, ''Finalizing text extraction''), (100, ''Processing complete'')]
       @ [CompleteText r]))
     = [Complete (Stringified r)]" for r
    by code_simp
  then show ?thesis by (simp only: onePage_written)
qed
text \<open>
  Within the conversion and within the recognition the percentages handed to the
  progress callback never decrease once rounded, and a request that succeeds is given 100
  once, in its last progress frame, which the complete frame follows.
\<close>

lemma processOCR_progress_within_phases:
  assumes "snd (convertPDFToImages e) = Inr images" and "images \<noteq> []"
  shows "written (processOCR e newStream)
           = progressChunk (0, ''Starting PDF processing'')
             # map progressChunk (fst (convertPDFToImages e))
             @ map progressChunk (fst (processPages e images))
             @ [CompleteText (snd (processPages e images))]"
    and "sorted (0 # map (\<lambda>c. Math_round (fst c)) (fst (convertPDFToImages e)))"
    and "sorted (map (\<lambda>c. Math_round (fst c)) (fst (processPages e images)))"
    and "count_list (0 # map (\<lambda>c. Math_round (fst c)) (fst (convertPDFToImages e))
                       @ map (\<lambda>c. Math_round (fst c)) (fst (processPages e images))) 100 = 1"
    and "last (map (\<lambda>c. Math_round (fst c)) (fst (processPages e images))) = 100"
proof -
  let ?conv = "fst (convertPDFToImages e)"
  let ?rec = "fst (recognizeBatches e images 0 ([(5, ''Starting OCR processing'')], []))"
  let ?r = "\<lambda>c::progressCall. Math_round (fst c)"
  show "written (processOCR e newStream)
           = progressChunk (0, ''Starting PDF processing'')
             # map progressChunk ?conv
             @ map progressChunk (fst (processPages e images))
             @ [CompleteText (snd (processPages e images))]"
    using assms by (simp add: processOCR_written)
  have conv: "sorted (map ?r ?conv)" "\<forall>c \<in> set ?conv. 10 \<le> ?r c \<and> ?r c \<le> 85"
    using convertPDFToImages_calls_sorted[of e]
    by (auto simp: sorted_Math_round Math_round_le Math_round_ge)
  show "sorted (0 # map ?r ?conv)"
    using conv by auto
  have rec: "sorted (map ?r ?rec)" "\<forall>c \<in> set ?rec. ?r c \<le> 85"
    using recognizeBatches_calls_start[of e images]
    by (auto simp: sorted_Math_round Math_round_le)
  have recm: "map ?r (fst (processPages e images)) = map ?r ?rec @ [90, 100]"
    by (simp add: processPages_calls Math_round_def)
  show "sorted (map ?r (fst (processPages e images)))"
    unfolding recm using rec by (auto simp: sorted_append)
  have "\<forall>x \<in> set (map ?r ?conv). x \<noteq> 100" "\<forall>x \<in> set (map ?r ?rec). x \<noteq> 100"
    using conv(2) rec(2) by fastforce+
  then have "count_list (map ?r ?conv) 100 = 0" "count_list (map ?r ?rec) 100 = 0"
    by (simp_all only: count_list_zero)
  then show "count_list (0 # map ?r ?conv @ map ?r (fst (processPages e images))) 100 = 1"
    unfolding recm by (simp add: count_list_append)
  show "last (map ?r (fst (processPages e images))) = 100"
    unfolding recm by simp
qed

text \<open>
  Claim C5: the stream of a request carries exactly one terminal event, complete or
  error, and nothing after it. The handler writes one terminal frame, last, and closes the
  stream, but it puts the message of the error into the frame without escaping it. When
  the first conversion throws with the message \<open>Unable to open file "page.pdf"\<close> the
  line of the error frame is not JSON, the client skips it, and the stream carries three
  progress events and no terminal event.
\<close>

theorem processOCR_error_frame_unreadable:
  \<open>written (processOCR unreadableDocument newStream)
     = [Text (progressText 0 ''Starting PDF processing''),
        Text (progressText 10 ''Analyzing PDF structure''),
        Text (progressText 20 ''Converting PDF pages to images''),
        Text (''data: {"type":"error","message":"Failed to process PDF: Unable to open file "page.pdf""}''
                @ blankLine)]
   \<and> closed (processOCR unreadableDocument newStream)
   \<and> JSON_parse ''{"type":"error","message":"Failed to process PDF: Unable to open file "page.pdf""}''
       = Inl SyntaxError
   \<and> filter isTerminal (received (written (processOCR unreadableDocument newStream))) = []\<close>
proof -
  have "filter isTerminal (received (written (processOCR unreadableDocument newStream))) = []"
    unfolding unreadable_written unreadable_received by simp
  then show ?thesis
    using unreadable_written unreadable_line by (simp add: processOCR_closed)
qed

text \<open>
  Claim C2: the percentages of the progress events of a request never decrease. For a
  document of one page that is recognised, the client reads 0, 10, 20, 30, 80 and 85
  during the conversion and then 5, 5, 90 and 100 during the recognition: the percentage
  falls from 85 to 5.
\<close>

theorem processOCR_progress_decreases:
  "progressPercents (written (processOCR onePageDocument newStream))
     = [0, 10, 20, 30, 80, 85, 5, 5, 90, 100]
   \<and> \<not> sorted (progressPercents (written (processOCR onePageDocument newStream)))"
proof -
  have "progressPercents (written (processOCR onePageDocument newStream))
     = [0, 10, 20, 30, 80, 85, 5, 5, 90, 100]"
    by (simp only: onePage_written onePage_decoded)
  then show ?thesis by simp
qed

section \<open>Properties of the validation\<close>

lemma prefix_take_iff: "prefix xs ys \<longleftrightarrow> take (length xs) ys = xs"
  by (metis append_eq_conv_conj prefix_def take_is_prefix)

lemma magic_prefix: "prefix ''%PDF-'' buffer \<longleftrightarrow> take 5 buffer = ''%PDF-''"
proof -
  have l: "length ''%PDF-'' = 5" by simp
  show ?thesis unfolding prefix_take_iff l ..
qed

lemma header_check: "prefix ''%PDF-'' (take 8 buffer) \<longleftrightarrow> take 5 buffer = ''%PDF-''"
  unfolding magic_prefix by simp

lemma validatePDF_cases:
  "validatePDF buffer =
     (if take 5 buffer \<noteq> ''%PDF-'' then \<lparr>isValid = False, error = Some ''Invalid PDF format''\<rparr>
      else if length buffer < 1024 then \<lparr>isValid = False, error = Some ''PDF file too small''\<rparr>
      else if length buffer > 50 * 1024 * 1024
      then \<lparr>isValid = False, error = Some ''PDF file too large (max 50MB)''\<rparr>
      else \<lparr>isValid = True, error = None\<rparr>)"
  unfolding validatePDF_def Let_def header_check by simp

text \<open>
  An upload declared as a PDF, with the magic marker and a size from 1KB to 50MB, opens
  the stream, and a stream is only opened by starting the background task on a new one.
\<close>

lemma POST_accepts:
  assumes "take 5 buffer = ''%PDF-''" and "1024 \<le> length buffer"
    and "length buffer \<le> 50 * 1024 * 1024"
  shows "POST e (FormDataResolves (Some \<lparr>file_type = ''application/pdf'', file_bytes = buffer\<rparr>))
           = StreamResponse (processOCR e newStream)"
  using assms by (simp add: POST_def validatePDF_cases Let_def)

lemma POST_stream:
  "POST e request = StreamResponse s \<Longrightarrow> s = processOCR e newStream"
  by (auto simp: POST_def Let_def split: formData.splits option.splits if_splits)

text \<open>
  Claim C8: an upload whose declared type is not \<open>application/pdf\<close>, or whose size
  exceeds 50MB, or whose first 5 bytes are not \<open>%PDF-\<close>, is answered with status
  400 and a JSON error body; the response is not an event stream, so the background task
  that rasterizes the document is never started.
\<close>

theorem POST_rejects_invalid_upload:
  "(file_type file \<noteq> ''application/pdf'' \<longrightarrow>
      POST e (FormDataResolves (Some file)) = JsonResponse 400 ''Only PDF files are supported'')
   \<and> (file_type file = ''application/pdf'' \<and> length (file_bytes file) > 50 * 1024 * 1024 \<longrightarrow>
      POST e (FormDataResolves (Some file)) = JsonResponse 400 ''File size exceeds 50MB limit'')
   \<and> (file_type file = ''application/pdf'' \<and> length (file_bytes file) \<le> 50 * 1024 * 1024
        \<and> take 5 (file_bytes file) \<noteq> ''%PDF-'' \<longrightarrow>
      POST e (FormDataResolves (Some file)) = JsonResponse 400 ''Invalid PDF format'')
   \<and> (file_type file \<noteq> ''application/pdf'' \<or> length (file_bytes file) > 50 * 1024 * 1024
        \<or> take 5 (file_bytes file) \<noteq> ''%PDF-'' \<longrightarrow>
      (\<exists>message. POST e (FormDataResolves (Some file)) = JsonResponse 400 message))"
  by (simp add: POST_def validatePDF_cases Let_def)

theorem POST_rejects_invalid_upload_witness:
  "POST onePageDocument (FormDataResolves (Some \<lparr>file_type = ''image/png'', file_bytes = ''%PDF-1.7''\<rparr>))
     = JsonResponse 400 ''Only PDF files are supported''
   \<and> length (file_bytes oversizedFile) > 50 * 1024 * 1024
   \<and> POST onePageDocument (FormDataResolves (Some oversizedFile))
     = JsonResponse 400 ''File size exceeds 50MB limit''
   \<and> POST onePageDocument (FormDataResolves (Some \<lparr>file_type = ''application/pdf'', file_bytes = ''GIF89a''\<rparr>))
     = JsonResponse 400 ''Invalid PDF format''"
  using POST_rejects_invalid_upload[of "\<lparr>file_type = ''image/png'', file_bytes = ''%PDF-1.7''\<rparr>" onePageDocument]
        POST_rejects_invalid_upload[of oversizedFile onePageDocument]
        POST_rejects_invalid_upload[of "\<lparr>file_type = ''application/pdf'', file_bytes = ''GIF89a''\<rparr>" onePageDocument]
  by (simp add: oversizedFile_def)


text \<open>
  Claim C9: a buffer that starts with \<open>%PDF-\<close> and is shorter than 1024 bytes is
  invalid for validatePDF with the error \<open>PDF file too small\<close>, and POST answers such
  an upload with status 400.
\<close>

theorem validatePDF_too_small:
  assumes "prefix ''%PDF-'' buffer" and "length buffer < 1024"
  shows "validatePDF buffer = \<lparr>isValid = False, error = Some ''PDF file too small''\<rparr>
   \<and> POST e (FormDataResolves (Some \<lparr>file_type = ''application/pdf'', file_bytes = buffer\<rparr>))
       = JsonResponse 400 ''PDF file too small''
   \<and> (\<exists>message. POST e (FormDataResolves (Some \<lparr>file_type = t, file_bytes = buffer\<rparr>))
          = JsonResponse 400 message)"
proof -
  from assms(1) have h: "take 5 buffer = ''%PDF-''"
    by (simp only: magic_prefix)
  with assms(2) show ?thesis
    by (simp add: POST_def validatePDF_cases Let_def)
qed

theorem validatePDF_too_small_witness:
  "prefix ''%PDF-'' ''%PDF-1.4'' \<and> length ''%PDF-1.4'' < 1024
   \<and> validatePDF ''%PDF-1.4'' = \<lparr>isValid = False, error = Some ''PDF file too small''\<rparr>
   \<and> POST onePageDocument (FormDataResolves (Some \<lparr>file_type = ''application/pdf'', file_bytes = ''%PDF-1.4''\<rparr>))
       = JsonResponse 400 ''PDF file too small''"
  using validatePDF_too_small[of "''%PDF-1.4''" onePageDocument]
  by simp

end
